theory Spec2Isabelle
  imports Main "HOL-Library.AList"
begin

section \<open>The message aggregate (apps/core/domain/message.py)\<close>

text \<open>
  Identifiers produced by \<^verbatim>\<open>uuid4()\<close> are natural numbers handed in by the caller.
  A \<^verbatim>\<open>datetime\<close> is a number of seconds since the epoch (UTC); every method that
  reads the clock takes the reading as its first argument \<open>now\<close>. Strings are lists of
  characters; the model covers ASCII text, where a character of the model is a
  character of the Python string.
\<close>

type_synonym uuid = nat
type_synonym datetime = nat

datatype MessageStatus =
  PENDING | QUEUED | SENT | DELIVERED | READ | FAILED
  | FALLBACK_SENT | FALLBACK_DELIVERED | EXPIRED

datatype MessageChannel = RCS | SMS | WHATSAPP

datatype FailureReason =
  INVALID_NUMBER | RCS_NOT_SUPPORTED | NETWORK_ERROR | RATE_LIMITED
  | BLOCKED | REASON_EXPIRED | UNKNOWN

text \<open>Exceptions raised by the domain classes; the payload is the message text.\<close>

datatype error = ValueError string | InvalidStateTransition string

fun is_ValueError :: "error + 'a \<Rightarrow> bool" where
  "is_ValueError (Inl (ValueError _)) = True"
| "is_ValueError _ = False"

record SuggestedAction =
  action_type :: string
  action_text :: string
  postback_data :: "string option"
  url :: "string option"
  phone_number :: "string option"

record RichCard =
  title :: "string option"
  description :: "string option"
  media_url :: "string option"
  media_type :: "string option"
  media_height :: string
  card_suggestions :: "SuggestedAction list"

record MessageContent =
  content_text :: string
  rich_card :: "RichCard option"
  suggestions :: "SuggestedAction list"

text \<open>Python truthiness of an \<^verbatim>\<open>Optional[str]\<close>: neither \<^verbatim>\<open>None\<close> nor empty.\<close>

fun truthy :: "string option \<Rightarrow> bool" where
  "truthy None = False"
| "truthy (Some s) = (s \<noteq> [])"

fun str_of :: "string option \<Rightarrow> string" where
  "str_of None = ''None''"
| "str_of (Some s) = s"

definition newline :: string where
  "newline = [CHR 0x0A]"

text \<open>
  \<^verbatim>\<open>MessageContent.to_sms_text\<close> (message.py, lines 112 to 130): the text, then the
  rich card's media URL, then one line per URL suggestion.
\<close>

definition append_url_suggestion :: "string \<Rightarrow> SuggestedAction \<Rightarrow> string" where
  "append_url_suggestion sms_text suggestion =
     (if action_type suggestion = ''url'' \<and> truthy (url suggestion)
      then sms_text @ newline @ action_text suggestion @ '': '' @ str_of (url suggestion)
      else sms_text)"

definition to_sms_text :: "MessageContent \<Rightarrow> string" where
  "to_sms_text c =
     (let sms_text = content_text c;
          sms_text = (case rich_card c of
                        None \<Rightarrow> sms_text
                      | Some rc \<Rightarrow>
                          if truthy (media_url rc)
                          then sms_text @ newline @ str_of (media_url rc)
                          else sms_text)
      in foldl append_url_suggestion sms_text (suggestions c))"

record DeliveryAttempt =
  attempt_number :: int
  attempt_channel :: MessageChannel
  attempted_at :: datetime
  attempt_status :: MessageStatus
  attempt_aggregator :: "string option"
  attempt_error_code :: "string option"
  attempt_error_message :: "string option"
  attempt_external_id :: "string option"

record Message =
  msg_id :: uuid
  campaign_id :: uuid
  tenant_id :: uuid
  recipient_phone :: string
  content :: MessageContent
  status :: MessageStatus
  channel :: MessageChannel
  priority :: string
  created_at :: datetime
  updated_at :: datetime
  queued_at :: "datetime option"
  sent_at :: "datetime option"
  delivered_at :: "datetime option"
  read_at :: "datetime option"
  failed_at :: "datetime option"
  expires_at :: datetime
  retry_count :: int
  max_retries :: int
  fallback_enabled :: bool
  fallback_triggered :: bool
  delivery_attempts :: "DeliveryAttempt list"
  aggregator :: "string option"
  external_id :: "string option"
  failure_reason :: "FailureReason option"
  metadata :: "(string \<times> string) list"

subsection \<open>Phone normalisation and construction\<close>

definition isdigit :: "char \<Rightarrow> bool" where
  "isdigit c = (c \<in> set ''0123456789'')"

fun startswith_plus :: "string \<Rightarrow> bool" where
  "startswith_plus [] = False"
| "startswith_plus (c # _) = (c = CHR ''+'')"

text \<open>\<^verbatim>\<open>Message._normalize_phone\<close>.\<close>

definition normalize_phone :: "string \<Rightarrow> string" where
  "normalize_phone phone =
     (let digits = filter isdigit phone
      in if \<not> startswith_plus phone
         then (if length digits = 10 then ''+91'' @ digits else ''+'' @ digits)
         else phone)"

text \<open>\<^verbatim>\<open>created_at.replace(hour=23, minute=59)\<close>: same day, same second.\<close>

definition end_of_day :: "datetime \<Rightarrow> datetime" where
  "end_of_day t = (t div 86400) * 86400 + 23 * 3600 + 59 * 60 + t mod 60"

text \<open>\<^verbatim>\<open>Message.__init__\<close>; \<open>created\<close> is the optional \<^verbatim>\<open>created_at\<close> argument.\<close>

definition Message_init ::
  "datetime \<Rightarrow> uuid \<Rightarrow> uuid \<Rightarrow> uuid \<Rightarrow> string \<Rightarrow> MessageContent \<Rightarrow> MessageStatus
     \<Rightarrow> MessageChannel \<Rightarrow> string \<Rightarrow> datetime option \<Rightarrow> Message" where
  "Message_init now i campaign tenant phone c st ch prio created =
     (let created_at = (case created of None \<Rightarrow> now | Some t \<Rightarrow> t)
      in \<lparr> msg_id = i, campaign_id = campaign, tenant_id = tenant,
           recipient_phone = normalize_phone phone, content = c, status = st,
           channel = ch, priority = prio, created_at = created_at, updated_at = now,
           queued_at = None, sent_at = None, delivered_at = None, read_at = None,
           failed_at = None, expires_at = end_of_day created_at,
           retry_count = 0, max_retries = 3, fallback_enabled = True,
           fallback_triggered = False, delivery_attempts = [], aggregator = None,
           external_id = None, failure_reason = None, metadata = [] \<rparr>)"

text \<open>\<^verbatim>\<open>Message.create\<close>; \<open>i\<close> is the value of \<^verbatim>\<open>uuid4()\<close>.\<close>

definition Message_create ::
  "datetime \<Rightarrow> uuid \<Rightarrow> uuid \<Rightarrow> uuid \<Rightarrow> string \<Rightarrow> MessageContent \<Rightarrow> string \<Rightarrow> Message" where
  "Message_create now i campaign tenant phone c prio =
     Message_init now i campaign tenant phone c PENDING RCS prio None"

subsection \<open>State transitions\<close>

text \<open>
  A method that mutates the message returns the outcome (\<open>Inl\<close> an exception,
  \<open>Inr ()\<close> a normal return) together with the message as the call leaves it.
\<close>

definition status_name :: "MessageStatus \<Rightarrow> string" where
  "status_name s = (case s of
      PENDING \<Rightarrow> ''pending'' | QUEUED \<Rightarrow> ''queued'' | SENT \<Rightarrow> ''sent''
    | DELIVERED \<Rightarrow> ''delivered'' | READ \<Rightarrow> ''read'' | FAILED \<Rightarrow> ''failed''
    | FALLBACK_SENT \<Rightarrow> ''fallback_sent'' | FALLBACK_DELIVERED \<Rightarrow> ''fallback_delivered''
    | EXPIRED \<Rightarrow> ''expired'')"

definition record_attempt ::
  "datetime \<Rightarrow> MessageChannel \<Rightarrow> MessageStatus \<Rightarrow> string option \<Rightarrow> string option
     \<Rightarrow> string option \<Rightarrow> string option \<Rightarrow> Message \<Rightarrow> Message" where
  "record_attempt now ch st agg ext code msg m =
     (let attempt = \<lparr> attempt_number = int (length (delivery_attempts m)) + 1,
                       attempt_channel = ch, attempted_at = now, attempt_status = st,
                       attempt_aggregator = agg, attempt_error_code = code,
                       attempt_error_message = msg, attempt_external_id = ext \<rparr>
      in m\<lparr>delivery_attempts := delivery_attempts m @ [attempt]\<rparr>)"

definition queue :: "datetime \<Rightarrow> Message \<Rightarrow> (error + unit) \<times> Message" where
  "queue now m =
     (if status m \<noteq> PENDING
      then (Inl (ValueError (''Cannot queue message in '' @ status_name (status m) @ '' status'')), m)
      else (Inr (), m\<lparr>status := QUEUED, queued_at := Some now, updated_at := now\<rparr>))"

text \<open>
  \<^verbatim>\<open>mark_sent\<close> and \<^verbatim>\<open>mark_fallback_sent\<close> store the external id as it is handed
  in; the service hands in \<^verbatim>\<open>response.external_id\<close>, an \<^verbatim>\<open>Optional[str]\<close>.
\<close>

definition mark_sent ::
  "datetime \<Rightarrow> string \<Rightarrow> string option \<Rightarrow> Message \<Rightarrow> (error + unit) \<times> Message" where
  "mark_sent now agg ext m =
     (let m1 = m\<lparr>status := SENT, sent_at := Some now, updated_at := now,
                  aggregator := Some agg, external_id := ext\<rparr>
      in (Inr (), record_attempt now (channel m1) SENT (Some agg) ext None None m1))"

definition mark_delivered :: "datetime \<Rightarrow> Message \<Rightarrow> (error + unit) \<times> Message" where
  "mark_delivered now m =
     (if status m \<notin> set [SENT, QUEUED]
      then (Inl (ValueError (''Cannot mark delivered from '' @ status_name (status m) @ '' status'')), m)
      else (let m1 = m\<lparr>status := DELIVERED, delivered_at := Some now, updated_at := now\<rparr>
            in (Inr (), record_attempt now (channel m1) DELIVERED (aggregator m1) None None None m1)))"

definition mark_read :: "datetime \<Rightarrow> Message \<Rightarrow> (error + unit) \<times> Message" where
  "mark_read now m =
     (if channel m \<noteq> RCS then (Inr (), m)
      else if status m \<noteq> DELIVERED
      then (Inl (ValueError (''Cannot mark read from '' @ status_name (status m) @ '' status'')), m)
      else (Inr (), m\<lparr>status := READ, read_at := Some now, updated_at := now\<rparr>))"

definition mark_failed ::
  "datetime \<Rightarrow> FailureReason \<Rightarrow> string option \<Rightarrow> string option \<Rightarrow> Message
     \<Rightarrow> (error + unit) \<times> Message" where
  "mark_failed now reason code msg m =
     (let m1 = m\<lparr>status := FAILED, failed_at := Some now, updated_at := now,
                  failure_reason := Some reason\<rparr>
      in (Inr (), record_attempt now (channel m1) FAILED (aggregator m1) None code msg m1))"

definition should_retry :: "datetime \<Rightarrow> Message \<Rightarrow> bool" where
  "should_retry now m =
     (if status m \<noteq> FAILED then False
      else if retry_count m \<ge> max_retries m then False
      else if now > expires_at m then False
      else if failure_reason m \<in> set [Some INVALID_NUMBER, Some BLOCKED] then False
      else True)"

definition should_fallback_to_sms :: "Message \<Rightarrow> bool" where
  "should_fallback_to_sms m =
     (if \<not> fallback_enabled m then False
      else if fallback_triggered m then False
      else if channel m = SMS then False
      else if failure_reason m = Some RCS_NOT_SUPPORTED then True
      else if retry_count m \<ge> max_retries m then True
      else False)"

definition trigger_fallback :: "datetime \<Rightarrow> Message \<Rightarrow> (error + unit) \<times> Message" where
  "trigger_fallback now m =
     (if \<not> should_fallback_to_sms m
      then (Inl (ValueError ''Cannot trigger fallback for this message''), m)
      else (Inr (),
            m\<lparr>channel := SMS, status := PENDING, fallback_triggered := True,
              retry_count := 0, updated_at := now,
              metadata := AList.update ''sms_text'' (to_sms_text (content m))
                            (AList.update ''original_channel'' ''rcs'' (metadata m))\<rparr>))"

text \<open>
  \<^verbatim>\<open>Message.mark_fallback_sent\<close> is defined twice in the class body; the second
  definition (lines 533 to 551) replaces the first and is the one modelled.
\<close>

definition mark_fallback_sent ::
  "datetime \<Rightarrow> string \<Rightarrow> string option \<Rightarrow> Message \<Rightarrow> (error + unit) \<times> Message" where
  "mark_fallback_sent now agg ext m =
     (Inr (), m\<lparr>status := FALLBACK_SENT, fallback_triggered := True, channel := SMS,
                aggregator := Some agg, external_id := ext,
                sent_at := Some now, updated_at := now\<rparr>)"

definition mark_fallback_delivered :: "datetime \<Rightarrow> Message \<Rightarrow> (error + unit) \<times> Message" where
  "mark_fallback_delivered now m =
     (Inr (), m\<lparr>status := FALLBACK_DELIVERED, delivered_at := Some now, updated_at := now\<rparr>)"

definition increment_retry :: "datetime \<Rightarrow> Message \<Rightarrow> (error + unit) \<times> Message" where
  "increment_retry now m =
     (Inr (), m\<lparr>retry_count := retry_count m + 1, updated_at := now\<rparr>)"

text \<open>
  The methods that change a message, as values, and a run of them on one message. An
  exception leaves the message as the raising call left it and the run goes on with
  the next call, as it does for a caller that catches the exception.
\<close>

datatype message_op =
  Queue
  | MarkSent string "string option"
  | MarkDelivered
  | MarkRead
  | MarkFailed FailureReason "string option" "string option"
  | TriggerFallback
  | MarkFallbackSent string "string option"
  | MarkFallbackDelivered
  | IncrementRetry

fun apply_op :: "datetime \<Rightarrow> message_op \<Rightarrow> Message \<Rightarrow> (error + unit) \<times> Message" where
  "apply_op now Queue m = queue now m"
| "apply_op now (MarkSent agg ext) m = mark_sent now agg ext m"
| "apply_op now MarkDelivered m = mark_delivered now m"
| "apply_op now MarkRead m = mark_read now m"
| "apply_op now (MarkFailed reason code msg) m = mark_failed now reason code msg m"
| "apply_op now TriggerFallback m = trigger_fallback now m"
| "apply_op now (MarkFallbackSent agg ext) m = mark_fallback_sent now agg ext m"
| "apply_op now MarkFallbackDelivered m = mark_fallback_delivered now m"
| "apply_op now IncrementRetry m = increment_retry now m"

fun run_ops :: "(datetime \<times> message_op) list \<Rightarrow> Message \<Rightarrow> Message" where
  "run_ops [] m = m"
| "run_ops ((now, op) # ops) m = run_ops ops (snd (apply_op now op m))"

text \<open>The format the docstring of \<^verbatim>\<open>_normalize_phone\<close> promises: a plus sign, then digits only.\<close>

fun is_e164 :: "string \<Rightarrow> bool" where
  "is_e164 [] = False"
| "is_e164 (c # cs) = (c = CHR ''+'' \<and> list_all isdigit cs)"

section \<open>The campaign aggregate (apps/core/domain/campaign.py)\<close>


datatype event_value = IntVal int | StrVal string








section \<open>The delivery service (apps/core/services/delivery_service.py)\<close>

text \<open>
  The service works on three ports. The opt-out repository is a table of consent rows
  keyed by tenant and phone number, the message repository a list of saved messages,
  the queue the lists of jobs enqueued and jobs scheduled for a time. The aggregator
  is given by what its calls answer. \<open>next_uuid\<close> is the next value of \<^verbatim>\<open>uuid4()\<close>.
\<close>

datatype ConsentStatus = OPTED_IN | OPTED_OUT | CONSENT_PENDING | CONSENT_EXPIRED

datatype QueuePriority = LOW | MEDIUM | HIGH | URGENT

record QueueMessage =
  job_id :: uuid
  queue_name :: string
  payload_message_id :: uuid
  job_priority :: QueuePriority
  delay :: "nat option"
  job_max_retries :: int
  retry_backoff :: int

record ServiceState =
  opt_ins :: "((uuid \<times> string) \<times> ConsentStatus) list"
  messages :: "Message list"
  enqueued :: "QueueMessage list"
  scheduled :: "(QueueMessage \<times> datetime) list"
  stats_updates :: "(uuid \<times> string \<times> int) list"
  next_uuid :: uuid

text \<open>Exceptions seen by the service: those of the domain and those of the aggregator port.\<close>

datatype exn =
  DomainError error
  | RateLimitException string "string option" "int option"
  | AggregatorException string "string option" "int option"
  | OtherException string

record SendMessageRequest =
  req_message_id :: uuid
  req_recipient_phone :: string
  req_channel :: MessageChannel
  req_content_text :: string
  req_rich_card :: "RichCard option"
  req_suggestions :: "SuggestedAction list"
  req_priority :: string

record SendMessageResponse =
  success :: bool
  resp_external_id :: "string option"
  resp_error_code :: "string option"
  resp_error_message :: "string option"
  resp_retry_after :: "int option"

record CapabilityCheckResult =
  cap_phone_number :: string
  rcs_enabled :: bool

record Aggregator =
  get_name :: string
  check_rcs_capability :: "string list \<Rightarrow> exn + CapabilityCheckResult list"
  send_rcs_message :: "SendMessageRequest \<Rightarrow> exn + SendMessageResponse"
  send_sms_message :: "SendMessageRequest \<Rightarrow> exn + SendMessageResponse"

text \<open>\<^verbatim>\<open>SQLAlchemyOptOutRepository.is_opted_out\<close>: no row means not opted out.\<close>

definition is_opted_out :: "ServiceState \<Rightarrow> string \<Rightarrow> uuid \<Rightarrow> bool" where
  "is_opted_out s phone tenant =
     (case map_of (opt_ins s) (tenant, phone) of
        None \<Rightarrow> False
      | Some promotional_status \<Rightarrow> promotional_status = OPTED_OUT)"

text \<open>\<^verbatim>\<open>messages.save\<close>: update the row with the message's id, or insert one.\<close>

definition save :: "Message \<Rightarrow> ServiceState \<Rightarrow> ServiceState" where
  "save m s =
     (if \<exists>x \<in> set (messages s). msg_id x = msg_id m
      then s\<lparr>messages := map (\<lambda>x. if msg_id x = msg_id m then m else x) (messages s)\<rparr>
      else s\<lparr>messages := messages s @ [m]\<rparr>)"

definition get_by_id :: "ServiceState \<Rightarrow> uuid \<Rightarrow> Message option" where
  "get_by_id s i = find (\<lambda>x. msg_id x = i) (messages s)"

definition update_stats :: "uuid \<Rightarrow> string \<Rightarrow> int \<Rightarrow> ServiceState \<Rightarrow> ServiceState" where
  "update_stats campaign key increment s =
     s\<lparr>stats_updates := stats_updates s @ [(campaign, key, increment)]\<rparr>"

definition lower_char :: "char \<Rightarrow> char" where
  "lower_char c =
     (case map_of (zip ''ABCDEFGHIJKLMNOPQRSTUVWXYZ'' ''abcdefghijklmnopqrstuvwxyz'') c of
        None \<Rightarrow> c | Some d \<Rightarrow> d)"

definition map_priority :: "string \<Rightarrow> QueuePriority" where
  "map_priority prio =
     (case map_of [(''low'', LOW), (''medium'', MEDIUM), (''high'', HIGH), (''urgent'', URGENT)]
             (map lower_char prio) of
        None \<Rightarrow> MEDIUM | Some q \<Rightarrow> q)"

text \<open>The job built for a message; the queue name is \<^verbatim>\<open>queue_names["message_dispatcher"]\<close>.\<close>

definition dispatch_job :: "Message \<Rightarrow> QueueMessage" where
  "dispatch_job m =
     \<lparr> job_id = msg_id m, queue_name = ''message.dispatch'', payload_message_id = msg_id m,
       job_priority = map_priority (priority m), delay = None, job_max_retries = 3,
       retry_backoff = 60 \<rparr>"

definition queue_message_for_delivery :: "Message \<Rightarrow> ServiceState \<Rightarrow> ServiceState" where
  "queue_message_for_delivery m s = s\<lparr>enqueued := enqueued s @ [dispatch_job m]\<rparr>"

definition queue_messages_batch :: "Message list \<Rightarrow> ServiceState \<Rightarrow> ServiceState" where
  "queue_messages_batch ms s = s\<lparr>enqueued := enqueued s @ map dispatch_job ms\<rparr>"

text \<open>\<^verbatim>\<open>QueuePort.schedule(message, scheduled_for)\<close>.\<close>

definition schedule_job :: "QueueMessage \<Rightarrow> datetime \<Rightarrow> ServiceState \<Rightarrow> ServiceState" where
  "schedule_job job at s = s\<lparr>scheduled := scheduled s @ [(job, at)]\<rparr>"

definition send_message ::
  "datetime \<Rightarrow> uuid \<Rightarrow> uuid \<Rightarrow> string \<Rightarrow> MessageContent \<Rightarrow> string \<Rightarrow> ServiceState
     \<Rightarrow> (error + Message) \<times> ServiceState" where
  "send_message now campaign tenant phone c prio s =
     (if is_opted_out s phone tenant
      then (Inl (ValueError (''Recipient '' @ phone @ '' has opted out'')), s)
      else (let message = Message_create now (next_uuid s) campaign tenant phone c prio;
                s1 = save message (s\<lparr>next_uuid := Suc (next_uuid s)\<rparr>);
                s2 = queue_message_for_delivery message s1
            in (Inr message, s2)))"

fun create_messages ::
  "datetime \<Rightarrow> uuid \<Rightarrow> uuid \<Rightarrow> uuid \<Rightarrow> MessageContent \<Rightarrow> string \<Rightarrow> string list \<Rightarrow> Message list" where
  "create_messages now i campaign tenant c prio [] = []"
| "create_messages now i campaign tenant c prio (phone # phones) =
     Message_create now i campaign tenant phone c prio
       # create_messages now (Suc i) campaign tenant c prio phones"

definition send_message_batch ::
  "datetime \<Rightarrow> uuid \<Rightarrow> uuid \<Rightarrow> string list \<Rightarrow> MessageContent \<Rightarrow> string \<Rightarrow> ServiceState
     \<Rightarrow> Message list \<times> ServiceState" where
  "send_message_batch now campaign tenant recipients c prio s =
     (let valid_recipients = filter (\<lambda>phone. \<not> is_opted_out s phone tenant) recipients;
          msgs = create_messages now (next_uuid s) campaign tenant c prio valid_recipients;
          s1 = s\<lparr>messages := messages s @ msgs, next_uuid := next_uuid s + length msgs\<rparr>;
          s2 = queue_messages_batch msgs s1
      in (msgs, s2))"

definition check_capability :: "Aggregator \<Rightarrow> string \<Rightarrow> exn + bool" where
  "check_capability agg phone =
     (case check_rcs_capability agg [phone] of
        Inl e \<Rightarrow> Inl e
      | Inr [] \<Rightarrow> Inr False
      | Inr (r # _) \<Rightarrow> Inr (rcs_enabled r))"

definition send_via_aggregator ::
  "datetime \<Rightarrow> Aggregator \<Rightarrow> Message \<Rightarrow> ServiceState \<Rightarrow> (exn + unit) \<times> Message \<times> ServiceState" where
  "send_via_aggregator now agg m s =
     (let request = \<lparr> req_message_id = msg_id m, req_recipient_phone = recipient_phone m,
                       req_channel = channel m, req_content_text = content_text (content m),
                       req_rich_card = rich_card (content m),
                       req_suggestions = suggestions (content m),
                       req_priority = priority m \<rparr>
      in case (if channel m = RCS then send_rcs_message agg request
               else send_sms_message agg request) of
           Inl e \<Rightarrow> (Inl e, m, s)
         | Inr response \<Rightarrow>
             if success response
             then (let m1 = snd (mark_sent now (get_name agg) (resp_external_id response) m)
                   in (Inr (), m1, save m1 s))
             else (Inl (AggregatorException
                          (if truthy (resp_error_message response)
                           then str_of (resp_error_message response)
                           else ''Unknown aggregator error'')
                          (resp_error_code response) (resp_retry_after response)), m, s))"

definition queue_fallback ::
  "datetime \<Rightarrow> Message \<Rightarrow> ServiceState \<Rightarrow> (exn + unit) \<times> Message \<times> ServiceState" where
  "queue_fallback now m s =
     (case trigger_fallback now m of
        (Inl e, m1) \<Rightarrow> (Inl (DomainError e), m1, s)
      | (Inr _, m1) \<Rightarrow> (Inr (), m1, queue_message_for_delivery m1 (save m1 s)))"

text \<open>
  \<^verbatim>\<open>_requeue_with_delay(message, delay)\<close>: the job is scheduled for the time of the
  call; \<open>delay_seconds\<close> is not read.
\<close>

definition requeue_with_delay :: "datetime \<Rightarrow> Message \<Rightarrow> int \<Rightarrow> ServiceState \<Rightarrow> ServiceState" where
  "requeue_with_delay now m delay_seconds s = schedule_job (dispatch_job m) now s"

fun exn_error_code :: "exn \<Rightarrow> string option" where
  "exn_error_code (RateLimitException _ code _) = code"
| "exn_error_code (AggregatorException _ code _) = code"
| "exn_error_code _ = Some ''UNKNOWN''"

fun exn_str :: "exn \<Rightarrow> string" where
  "exn_str (DomainError (ValueError msg)) = msg"
| "exn_str (DomainError (InvalidStateTransition msg)) = msg"
| "exn_str (RateLimitException msg _ _) = msg"
| "exn_str (AggregatorException msg _ _) = msg"
| "exn_str (OtherException msg) = msg"

definition handle_delivery_failure ::
  "datetime \<Rightarrow> Message \<Rightarrow> exn \<Rightarrow> ServiceState \<Rightarrow> (exn + unit) \<times> Message \<times> ServiceState" where
  "handle_delivery_failure now m e s =
     (let m1 = snd (mark_failed now NETWORK_ERROR (exn_error_code e) (Some (exn_str e)) m)
      in if should_retry now m1
         then (let m2 = snd (increment_retry now m1)
               in (Inr (), m2, queue_message_for_delivery m2 (save m2 s)))
         else if should_fallback_to_sms m1 then queue_fallback now m1 s
         else (Inr (), m1, save m1 s))"

definition queue_and_send ::
  "datetime \<Rightarrow> Aggregator \<Rightarrow> Message \<Rightarrow> ServiceState \<Rightarrow> (exn + unit) \<times> Message \<times> ServiceState" where
  "queue_and_send now agg m s =
     (case queue now m of
        (Inl e, m1) \<Rightarrow> (Inl (DomainError e), m1, s)
      | (Inr _, m1) \<Rightarrow>
          (case send_via_aggregator now agg m1 (save m1 s) of
             (Inl e, m2, s2) \<Rightarrow> (Inl e, m2, s2)
           | (Inr _, m2, s2) \<Rightarrow>
               (Inr (), m2, update_stats (campaign_id m2) ''messages_sent'' 1 s2)))"

text \<open>The body of the \<^verbatim>\<open>try\<close> block of \<^verbatim>\<open>process_message_delivery\<close>.\<close>

definition delivery_attempt ::
  "datetime \<Rightarrow> Aggregator \<Rightarrow> Message \<Rightarrow> ServiceState \<Rightarrow> (exn + unit) \<times> Message \<times> ServiceState" where
  "delivery_attempt now agg m s =
     (if channel m = RCS
      then (case check_capability agg (recipient_phone m) of
              Inl e \<Rightarrow> (Inl e, m, s)
            | Inr rcs_capable \<Rightarrow>
                if \<not> rcs_capable
                then (let m1 = snd (mark_failed now RCS_NOT_SUPPORTED None
                                      (Some ''RCS not supported'') m)
                      in queue_fallback now m1 (save m1 s))
                else queue_and_send now agg m s)
      else queue_and_send now agg m s)"

text \<open>\<^verbatim>\<open>e.retry_after or 60\<close>.\<close>

fun retry_after_or_60 :: "int option \<Rightarrow> int" where
  "retry_after_or_60 None = 60"
| "retry_after_or_60 (Some n) = (if n = 0 then 60 else n)"

text \<open>
  \<^verbatim>\<open>process_message_delivery\<close>: the result is the exception that leaves the call, if
  any, and the state of the ports.
\<close>

definition process_message_delivery ::
  "datetime \<Rightarrow> Aggregator \<Rightarrow> uuid \<Rightarrow> ServiceState \<Rightarrow> exn option \<times> ServiceState" where
  "process_message_delivery now agg message_id s =
     (case get_by_id s message_id of
        None \<Rightarrow> (None, s)
      | Some message \<Rightarrow>
          (case delivery_attempt now agg message s of
             (Inr _, m1, s1) \<Rightarrow> (None, s1)
           | (Inl (RateLimitException msg code retry_after), m1, s1) \<Rightarrow>
               (None, requeue_with_delay now m1 (retry_after_or_60 retry_after) s1)
           | (Inl e, m1, s1) \<Rightarrow>
               (case handle_delivery_failure now m1 e s1 of
                  (Inl e2, m2, s2) \<Rightarrow> (Some e2, s2)
                | (Inr _, m2, s2) \<Rightarrow> (None, s2))))"

section \<open>Concrete messages, campaigns and port states\<close>

definition plain_content :: MessageContent where
  "plain_content = \<lparr>content_text = ''Hi'', rich_card = None, suggestions = []\<rparr>"

text \<open>A rich card with a title and a description, a dial suggestion and a quick reply.\<close>

definition rich_content :: MessageContent where
  "rich_content =
     \<lparr>content_text = ''Hi'',
      rich_card = Some \<lparr>title = Some ''Sale'', description = Some ''50% off'',
                        media_url = None, media_type = None, media_height = ''MEDIUM'',
                        card_suggestions = []\<rparr>,
      suggestions =
        [\<lparr>action_type = ''dial'', action_text = ''Call us'', postback_data = None,
          url = None, phone_number = Some ''+911234567890''\<rparr>,
         \<lparr>action_type = ''reply'', action_text = ''Yes'', postback_data = Some ''yes'',
          url = None, phone_number = None\<rparr>]\<rparr>"

definition long_content :: MessageContent where
  "long_content =
     \<lparr>content_text = replicate 1700 (CHR ''a''), rich_card = None, suggestions = []\<rparr>"

definition new_message :: "MessageContent \<Rightarrow> Message" where
  "new_message c = Message_create 10 1 2 3 ''9876543210'' c ''medium''"

definition failed_message :: "MessageContent \<Rightarrow> Message" where
  "failed_message c =
     snd (mark_failed 20 RCS_NOT_SUPPORTED None (Some ''RCS not supported'') (new_message c))"

definition fallback_ops :: "(datetime \<times> message_op) list" where
  "fallback_ops = [(20, MarkFailed RCS_NOT_SUPPORTED None None), (30, TriggerFallback)]"

definition later_ops :: "(datetime \<times> message_op) list" where
  "later_ops = [(40, Queue), (50, MarkSent ''gupshup'' (Some ''ext-1'')), (60, MarkRead)]"


text \<open>An aggregator whose capability check answers yes and whose sends hit the rate limit.\<close>

definition rate_limited_aggregator :: "int option \<Rightarrow> Aggregator" where
  "rate_limited_aggregator retry_after =
     \<lparr> get_name = ''gupshup'',
       check_rcs_capability =
         (\<lambda>phones. Inr (map (\<lambda>p. \<lparr>cap_phone_number = p, rcs_enabled = True\<rparr>) phones)),
       send_rcs_message =
         (\<lambda>request. Inl (RateLimitException ''Rate limit exceeded'' None retry_after)),
       send_sms_message =
         (\<lambda>request. Inl (RateLimitException ''Rate limit exceeded'' None retry_after)) \<rparr>"

definition one_pending :: ServiceState where
  "one_pending =
     \<lparr> opt_ins = [],
       messages = [Message_create 10 7 2 3 ''9876543210'' plain_content ''high''],
       enqueued = [], scheduled = [], stats_updates = [], next_uuid = 8 \<rparr>"

definition one_opted_out :: ServiceState where
  "one_opted_out =
     \<lparr> opt_ins = [((3, ''+919876543210''), OPTED_OUT), ((3, ''+919000000001''), OPTED_IN)],
       messages = [], enqueued = [], scheduled = [], stats_updates = [], next_uuid = 5 \<rparr>"

section \<open>Properties of the message aggregate\<close>

text \<open>
  C1: \<^verbatim>\<open>should_retry()\<close> returns true if and only if the status is FAILED,
  \<open>retry_count < max_retries\<close>, the current time is not past \<open>expires_at\<close>, and the
  failure reason is neither INVALID_NUMBER nor BLOCKED.
\<close>

theorem should_retry_iff:
  "should_retry now m =
     (status m = FAILED \<and> retry_count m < max_retries m \<and> \<not> now > expires_at m
      \<and> failure_reason m \<noteq> Some INVALID_NUMBER \<and> failure_reason m \<noteq> Some BLOCKED)"
  by (auto simp: should_retry_def)

text \<open>What a message looks like after creation and after its first failure.\<close>

lemma new_message_fields:
  "status (new_message c) = PENDING" "channel (new_message c) = RCS"
  "retry_count (new_message c) = 0" "max_retries (new_message c) = 3"
  "fallback_enabled (new_message c)" "\<not> fallback_triggered (new_message c)"
  "failure_reason (new_message c) = None" "content (new_message c) = c"
  "metadata (new_message c) = []" "delivery_attempts (new_message c) = []"
  by (simp_all add: new_message_def Message_create_def Message_init_def)

lemma failed_message_fields:
  "status (failed_message c) = FAILED" "channel (failed_message c) = RCS"
  "retry_count (failed_message c) = 0" "max_retries (failed_message c) = 3"
  "fallback_enabled (failed_message c)" "\<not> fallback_triggered (failed_message c)"
  "failure_reason (failed_message c) = Some RCS_NOT_SUPPORTED"
  "content (failed_message c) = c" "metadata (failed_message c) = []"
  by (simp_all add: failed_message_def mark_failed_def record_attempt_def new_message_fields)

text \<open>
  C2: a message in status FAILED with failure reason RCS_NOT_SUPPORTED, fallback
  enabled and not yet triggered, on channel RCS, should fall back to SMS, and
  \<^verbatim>\<open>trigger_fallback()\<close> leaves it with channel SMS, status PENDING, retry count 0 and
  \<open>fallback_triggered\<close> set.
\<close>

theorem fallback_on_rcs_not_supported:
  assumes "status m = FAILED" and "failure_reason m = Some RCS_NOT_SUPPORTED"
    and "fallback_enabled m" and "\<not> fallback_triggered m" and "channel m = RCS"
  shows "should_fallback_to_sms m
         \<and> fst (trigger_fallback now m) = Inr ()
         \<and> channel (snd (trigger_fallback now m)) = SMS
         \<and> status (snd (trigger_fallback now m)) = PENDING
         \<and> retry_count (snd (trigger_fallback now m)) = 0
         \<and> fallback_triggered (snd (trigger_fallback now m))"
proof -
  from assms have go: "should_fallback_to_sms m"
    by (simp add: should_fallback_to_sms_def)
  then show ?thesis
    by (simp add: trigger_fallback_def)
qed

theorem fallback_on_rcs_not_supported_witness:
  "status (failed_message plain_content) = FAILED
   \<and> failure_reason (failed_message plain_content) = Some RCS_NOT_SUPPORTED
   \<and> channel (failed_message plain_content) = RCS
   \<and> should_fallback_to_sms (failed_message plain_content)
   \<and> fst (trigger_fallback 30 (failed_message plain_content)) = Inr ()
   \<and> channel (snd (trigger_fallback 30 (failed_message plain_content))) = SMS
   \<and> status (snd (trigger_fallback 30 (failed_message plain_content))) = PENDING
   \<and> retry_count (snd (trigger_fallback 30 (failed_message plain_content))) = 0
   \<and> fallback_triggered (snd (trigger_fallback 30 (failed_message plain_content)))"
  using fallback_on_rcs_not_supported [of "failed_message plain_content" 30]
  by (simp add: failed_message_fields)

text \<open>
  C3: the plain-text SMS conversion stored by a successful \<^verbatim>\<open>trigger_fallback()\<close>
  appends the rich card's title, description and media URL and every URL or dial
  suggestion, drops quick replies, and truncates to a maximum length with an ellipsis.
  The conversion the message calls is \<^verbatim>\<open>MessageContent.to_sms_text\<close>, which appends the
  media URL and the URL suggestions only: for a card titled Sale, described 50% off,
  with a dial suggestion, the stored text is the bare message text, and a text of 1700
  characters is stored at its full length.
\<close>

theorem trigger_fallback_stores_bare_text:
  "fst (trigger_fallback 30 (failed_message rich_content)) = Inr ()
   \<and> map_of (metadata (snd (trigger_fallback 30 (failed_message rich_content)))) ''sms_text''
       = Some ''Hi''
   \<and> fst (trigger_fallback 30 (failed_message long_content)) = Inr ()
   \<and> map_of (metadata (snd (trigger_fallback 30 (failed_message long_content)))) ''sms_text''
       = Some (replicate 1700 (CHR ''a''))"
proof -
  have go: "should_fallback_to_sms (failed_message c)" for c
    by (simp add: should_fallback_to_sms_def failed_message_fields)
  have rich: "to_sms_text rich_content = ''Hi''"
    by (simp add: to_sms_text_def rich_content_def append_url_suggestion_def)
  have long: "to_sms_text long_content = replicate 1700 (CHR ''a'')"
    by (simp add: to_sms_text_def long_content_def)
  show ?thesis
    by (simp add: trigger_fallback_def go rich long failed_message_fields)
qed

text \<open>One call changes the channel to SMS or not at all; so does a run of calls.\<close>

lemma apply_op_channel:
  "channel (snd (apply_op now op m)) = channel m \<or> channel (snd (apply_op now op m)) = SMS"
proof (cases op)
  case (MarkSent agg ext)
  then show ?thesis by (simp add: mark_sent_def record_attempt_def)
next
  case MarkDelivered
  then show ?thesis by (simp add: mark_delivered_def record_attempt_def)
next
  case (MarkFailed reason code msg)
  then show ?thesis by (simp add: mark_failed_def record_attempt_def)
next
  case TriggerFallback
  then show ?thesis by (simp add: trigger_fallback_def)
qed (simp_all add: queue_def mark_read_def mark_fallback_sent_def
      mark_fallback_delivered_def increment_retry_def)

lemma run_ops_channel:
  "channel (run_ops ops m) = channel m \<or> channel (run_ops ops m) = SMS"
proof (induction ops arbitrary: m)
  case Nil
  show ?case by simp
next
  case (Cons a ops)
  obtain now op where a: "a = (now, op)" by (cases a)
  from Cons.IH [of "snd (apply_op now op m)"] apply_op_channel [of now op m]
  show ?case unfolding a by auto
qed

lemma run_ops_append: "run_ops (xs @ ys) m = run_ops ys (run_ops xs m)"
  by (induction xs arbitrary: m) auto

text \<open>
  C5: over every sequence of operations on a message, the channel only ever moves from
  RCS to SMS, never from SMS back to RCS: once a run has reached SMS every longer run
  is on SMS, a change of channel ends on SMS, and a message that starts on RCS is on
  RCS or SMS after any run.
\<close>

theorem channel_only_moves_to_sms:
  "(channel (run_ops before m) = SMS \<longrightarrow> channel (run_ops (before @ after) m) = SMS)
   \<and> (channel (run_ops (before @ after) m) \<noteq> channel (run_ops before m)
        \<longrightarrow> channel (run_ops (before @ after) m) = SMS)
   \<and> (channel m = RCS \<longrightarrow> channel (run_ops before m) \<in> {RCS, SMS})"
proof -
  have step: "channel (run_ops (before @ after) m) = channel (run_ops before m)
              \<or> channel (run_ops (before @ after) m) = SMS"
    using run_ops_channel [of after "run_ops before m"] by (simp add: run_ops_append)
  have start: "channel (run_ops before m) = channel m \<or> channel (run_ops before m) = SMS"
    by (rule run_ops_channel)
  from step start show ?thesis by auto
qed

lemma fallback_ops_channel:
  "channel (run_ops fallback_ops (new_message plain_content)) = SMS"
  by (simp add: fallback_ops_def mark_failed_def record_attempt_def trigger_fallback_def
      should_fallback_to_sms_def new_message_fields)

theorem channel_only_moves_to_sms_witness:
  "channel (new_message plain_content) = RCS
   \<and> channel (run_ops ([] @ fallback_ops) (new_message plain_content))
        \<noteq> channel (run_ops [] (new_message plain_content))
   \<and> channel (run_ops fallback_ops (new_message plain_content)) = SMS
   \<and> channel (run_ops (fallback_ops @ later_ops) (new_message plain_content)) = SMS
   \<and> channel (run_ops [] (new_message plain_content)) \<in> {RCS, SMS}"
proof -
  have a: "channel (new_message plain_content) = RCS"
    by (simp add: new_message_fields)
  have b: "channel (run_ops fallback_ops (new_message plain_content)) = SMS"
    by (rule fallback_ops_channel)
  from b channel_only_moves_to_sms [of fallback_ops "new_message plain_content" later_ops]
  have c: "channel (run_ops (fallback_ops @ later_ops) (new_message plain_content)) = SMS"
    by blast
  from a channel_only_moves_to_sms [of "[]" "new_message plain_content" fallback_ops]
  have d: "channel (run_ops [] (new_message plain_content)) \<in> {RCS, SMS}"
    by blast
  from a b c d show ?thesis by simp
qed

text \<open>
  C6: \<^verbatim>\<open>queue()\<close> moves a PENDING message to QUEUED; from every other status it
  fails with a \<^verbatim>\<open>ValueError\<close> naming the status and leaves the message, its status
  and timestamps included, as it was.
\<close>

theorem queue_only_from_pending:
  "(status m = PENDING \<longrightarrow>
      fst (queue now m) = Inr () \<and> status (snd (queue now m)) = QUEUED)
   \<and> (status m \<noteq> PENDING \<longrightarrow>
      is_ValueError (fst (queue now m)) \<and> snd (queue now m) = m)"
  by (simp add: queue_def)

theorem queue_only_from_pending_witness:
  "status (new_message plain_content) = PENDING
   \<and> fst (queue 40 (new_message plain_content)) = Inr ()
   \<and> status (snd (queue 40 (new_message plain_content))) = QUEUED
   \<and> status (failed_message plain_content) \<noteq> PENDING
   \<and> is_ValueError (fst (queue 40 (failed_message plain_content)))
   \<and> snd (queue 40 (failed_message plain_content)) = failed_message plain_content"
  using queue_only_from_pending [of "new_message plain_content" 40]
    queue_only_from_pending [of "failed_message plain_content" 40]
  by (simp add: new_message_fields failed_message_fields)

text \<open>
  C9: the phone number stored on a created message begins with a plus sign followed
  only by digits. A number handed in with a leading plus sign is stored as it is, so
  the spaces and the dash of \<^verbatim>\<open>+91 98765-43210\<close> stay.
\<close>

theorem create_keeps_formatted_plus_number:
  "recipient_phone (Message_create 10 1 2 3 ''+91 98765-43210'' plain_content ''medium'')
     = ''+91 98765-43210''
   \<and> \<not> is_e164 (recipient_phone
                  (Message_create 10 1 2 3 ''+91 98765-43210'' plain_content ''medium''))"
  by (simp add: Message_create_def Message_init_def normalize_phone_def isdigit_def)

text \<open>A number handed in without a leading plus sign is stored in the promised format.\<close>

lemma normalize_phone_without_plus:
  "\<not> startswith_plus phone \<Longrightarrow> is_e164 (normalize_phone phone)"
  by (simp add: normalize_phone_def Let_def list_all_iff isdigit_def)

text \<open>
  C10: \<^verbatim>\<open>mark_sent(aggregator, external_id)\<close> has no status precondition: on a message
  in any status it returns normally, sets the status to SENT, stores the aggregator
  name and the external id, and appends exactly one delivery attempt to the log.
\<close>

theorem mark_sent_from_any_status:
  "fst (mark_sent now agg ext m) = Inr ()
   \<and> status (snd (mark_sent now agg ext m)) = SENT
   \<and> aggregator (snd (mark_sent now agg ext m)) = Some agg
   \<and> external_id (snd (mark_sent now agg ext m)) = ext
   \<and> delivery_attempts (snd (mark_sent now agg ext m)) =
       delivery_attempts m @
         [\<lparr> attempt_number = int (length (delivery_attempts m)) + 1,
            attempt_channel = channel m, attempted_at = now, attempt_status = SENT,
            attempt_aggregator = Some agg, attempt_error_code = None,
            attempt_error_message = None, attempt_external_id = ext \<rparr>]"
  by (simp add: mark_sent_def record_attempt_def)

section \<open>Properties of the campaign aggregate\<close>





section \<open>Properties of the delivery service\<close>

text \<open>
  On a rate-limit signal the dispatch job of the message is scheduled for the time of
  the call, whatever delay the aggregator named, and the message is not touched.
\<close>

lemma rate_limit_schedules_now:
  assumes "get_by_id s i = Some m"
    and "delivery_attempt now agg m s = (Inl (RateLimitException msg code ra), m1, s1)"
  shows "process_message_delivery now agg i s =
           (None, s1\<lparr>scheduled := scheduled s1 @ [(dispatch_job m1, now)]\<rparr>)"
  using assms
  by (simp add: process_message_delivery_def requeue_with_delay_def schedule_job_def)

lemma one_pending_attempt:
  "delivery_attempt 1000 (rate_limited_aggregator ra)
     (Message_create 10 7 2 3 ''9876543210'' plain_content ''high'') one_pending =
   (Inl (RateLimitException ''Rate limit exceeded'' None ra),
    snd (queue 1000 (Message_create 10 7 2 3 ''9876543210'' plain_content ''high'')),
    one_pending\<lparr>messages :=
      [snd (queue 1000 (Message_create 10 7 2 3 ''9876543210'' plain_content ''high''))]\<rparr>)"
  by (simp add: delivery_attempt_def check_capability_def rate_limited_aggregator_def
      queue_and_send_def queue_def send_via_aggregator_def save_def one_pending_def
      Message_create_def Message_init_def)

text \<open>
  C4: on a rate-limit signal \<^verbatim>\<open>process_message_delivery\<close> requeues the dispatch job
  delayed by the vendor's \<open>retry_after\<close> and does not increment the retry count. With
  \<open>retry_after = 30\<close> at time 1000 the retry count stays 0, and the job is scheduled for
  1000, not for 1030: \<^verbatim>\<open>_requeue_with_delay\<close> does not read its delay.
\<close>

theorem rate_limit_requeue_is_not_delayed:
  "fst (process_message_delivery 1000 (rate_limited_aggregator (Some 30)) 7 one_pending) = None
   \<and> map snd (scheduled (snd (process_message_delivery 1000
                               (rate_limited_aggregator (Some 30)) 7 one_pending))) = [1000]
   \<and> map payload_message_id (map fst (scheduled (snd (process_message_delivery 1000
                               (rate_limited_aggregator (Some 30)) 7 one_pending)))) = [7]
   \<and> map retry_count (messages (snd (process_message_delivery 1000
                               (rate_limited_aggregator (Some 30)) 7 one_pending))) = [0]"
proof -
  have found: "get_by_id one_pending 7 =
                 Some (Message_create 10 7 2 3 ''9876543210'' plain_content ''high'')"
    by (simp add: get_by_id_def one_pending_def Message_create_def Message_init_def)
  show ?thesis
    unfolding rate_limit_schedules_now [OF found one_pending_attempt]
    by (simp add: dispatch_job_def queue_def one_pending_def Message_create_def Message_init_def)
qed

lemma create_messages_phones:
  "map recipient_phone (create_messages now i campaign tenant c prio phones) =
     map normalize_phone phones"
  by (induction phones arbitrary: i) (simp_all add: Message_create_def Message_init_def)

text \<open>
  The consent check is made on the phone string as it is handed in. For a string that
  the check answers as opted out, \<^verbatim>\<open>send_message\<close> raises and leaves the ports as they
  were, and \<^verbatim>\<open>send_message_batch\<close> creates and saves the batch of the strings that
  the check lets through.
\<close>

lemma consent_check_on_the_string_passed:
  "(is_opted_out s phone tenant \<longrightarrow>
      is_ValueError (fst (send_message now campaign tenant phone c prio s))
      \<and> snd (send_message now campaign tenant phone c prio s) = s)
   \<and> map recipient_phone (fst (send_message_batch now campaign tenant recipients c prio s)) =
       map normalize_phone (filter (\<lambda>p. \<not> is_opted_out s p tenant) recipients)
   \<and> messages (snd (send_message_batch now campaign tenant recipients c prio s)) =
       messages s @ fst (send_message_batch now campaign tenant recipients c prio s)"
proof -
  have single: "is_opted_out s phone tenant \<longrightarrow>
      is_ValueError (fst (send_message now campaign tenant phone c prio s))
      \<and> snd (send_message now campaign tenant phone c prio s) = s"
    by (simp add: send_message_def)
  have phones: "map recipient_phone
        (fst (send_message_batch now campaign tenant recipients c prio s)) =
       map normalize_phone (filter (\<lambda>p. \<not> is_opted_out s p tenant) recipients)"
    by (simp add: send_message_batch_def Let_def create_messages_phones)
  have saved: "messages (snd (send_message_batch now campaign tenant recipients c prio s)) =
       messages s @ fst (send_message_batch now campaign tenant recipients c prio s)"
    by (simp add: send_message_batch_def Let_def queue_messages_batch_def)
  from single phones saved show ?thesis by blast
qed

lemma one_opted_out_rows:
  "is_opted_out one_opted_out ''+919876543210'' 3"
  "\<not> is_opted_out one_opted_out ''9876543210'' 3"
  "normalize_phone ''9876543210'' = ''+919876543210''"
  by (simp_all add: is_opted_out_def one_opted_out_def normalize_phone_def isdigit_def)

text \<open>
  C8: for every recipient who is opted out, \<^verbatim>\<open>send_message\<close> raises an error before
  any message is created and \<^verbatim>\<open>send_message_batch\<close> leaves the recipient out of the
  batch, so no message is ever created for an opted-out recipient. The check runs on
  the string handed in and the message normalises the number afterwards: with
  \<^verbatim>\<open>+919876543210\<close> opted out for tenant 3, the string \<^verbatim>\<open>9876543210\<close> passes
  the check, and both \<^verbatim>\<open>send_message\<close> and \<^verbatim>\<open>send_message_batch\<close> create, save and
  queue a message to \<^verbatim>\<open>+919876543210\<close>.
\<close>

theorem opted_out_number_reached_unnormalised:
  "is_opted_out one_opted_out ''+919876543210'' 3
   \<and> map_sum id recipient_phone
        (fst (send_message 10 2 3 ''9876543210'' plain_content ''medium'' one_opted_out))
       = Inr ''+919876543210''
   \<and> map recipient_phone
        (messages (snd (send_message 10 2 3 ''9876543210'' plain_content ''medium''
                          one_opted_out)))
       = [''+919876543210'']
   \<and> map payload_message_id
        (enqueued (snd (send_message 10 2 3 ''9876543210'' plain_content ''medium''
                          one_opted_out)))
       = [5]
   \<and> map recipient_phone
        (fst (send_message_batch 10 2 3 [''+919876543210'', ''9876543210'']
                plain_content ''medium'' one_opted_out))
       = [''+919876543210'']
   \<and> map recipient_phone
        (messages (snd (send_message_batch 10 2 3 [''+919876543210'', ''9876543210'']
                          plain_content ''medium'' one_opted_out)))
       = [''+919876543210'']"
proof -
  have created: "recipient_phone (Message_create 10 5 2 3 ''9876543210'' plain_content ''medium'')
                   = ''+919876543210''"
    "msg_id (Message_create 10 5 2 3 ''9876543210'' plain_content ''medium'') = 5"
    by (simp_all add: Message_create_def Message_init_def one_opted_out_rows)
  have empty: "messages one_opted_out = []" "enqueued one_opted_out = []"
    "next_uuid one_opted_out = 5"
    by (simp_all add: one_opted_out_def)
  have returned: "fst (send_message 10 2 3 ''9876543210'' plain_content ''medium'' one_opted_out)
      = Inr (Message_create 10 5 2 3 ''9876543210'' plain_content ''medium'')"
    by (simp add: send_message_def Let_def one_opted_out_rows empty)
  have stored: "messages (snd (send_message 10 2 3 ''9876543210'' plain_content ''medium''
                                one_opted_out))
      = [Message_create 10 5 2 3 ''9876543210'' plain_content ''medium'']"
    by (simp add: send_message_def Let_def one_opted_out_rows save_def
        queue_message_for_delivery_def empty)
  have queued: "enqueued (snd (send_message 10 2 3 ''9876543210'' plain_content ''medium''
                                one_opted_out))
      = [dispatch_job (Message_create 10 5 2 3 ''9876543210'' plain_content ''medium'')]"
    by (simp add: send_message_def Let_def one_opted_out_rows save_def
        queue_message_for_delivery_def empty)
  have valid: "filter (\<lambda>p. \<not> is_opted_out one_opted_out p 3) [''+919876543210'', ''9876543210'']
                 = [''9876543210'']"
    by (simp add: one_opted_out_rows)
  have batch: "map recipient_phone
        (fst (send_message_batch 10 2 3 [''+919876543210'', ''9876543210'']
                plain_content ''medium'' one_opted_out)) = [''+919876543210'']"
    using consent_check_on_the_string_passed
            [of one_opted_out "''9876543210''" 3 10 2 plain_content "''medium''"
                "[''+919876543210'', ''9876543210'']"]
    by (simp add: valid one_opted_out_rows)
  have saved: "messages (snd (send_message_batch 10 2 3 [''+919876543210'', ''9876543210'']
                          plain_content ''medium'' one_opted_out))
       = fst (send_message_batch 10 2 3 [''+919876543210'', ''9876543210'']
                plain_content ''medium'' one_opted_out)"
    by (simp add: send_message_batch_def Let_def queue_messages_batch_def empty)
  show ?thesis
    by (simp add: returned stored queued saved batch created dispatch_job_def
        one_opted_out_rows)
qed

end
